theory Spec2Isabelle
  imports Main "HOL-Library.AList"
begin

section \<open>Decoration layers of the npm-outdated extension\<close>

text \<open>
  A shallow embedding of \<^verbatim>\<open>Decoration.ts\<close> and \<^verbatim>\<open>Theme.ts\<close>: the classes
  \<^verbatim>\<open>Message\<close>, \<^verbatim>\<open>DocumentDecorationLayer\<close>, \<^verbatim>\<open>DocumentDecorationManager\<close> and
  \<^verbatim>\<open>DocumentDecoration\<close> are records, their methods are functions that take the
  object (and the part of the world they touch) and return it updated.

  Documents, text editors and decoration types are host objects compared by identity;
  they are natural numbers here. Line numbers and layer indices are natural numbers
  (the source only passes document lines and \<^verbatim>\<open>forEach\<close> indices).
\<close>

subsection \<open>Styles and the theme tables\<close>

text \<open>
  \<^verbatim>\<open>ThemableDecorationAttachmentRenderOptions\<close>, restricted to the three properties
  the source ever sets. An absent property is \<open>None\<close>.
\<close>

record Attachment =
  contentText :: "string option"
  color :: "string option"
  margin :: "string option"

definition empty_object :: Attachment where
  "empty_object = \<lparr>contentText = None, color = None, margin = None\<rparr>"

definition color_object :: "string \<Rightarrow> Attachment" where
  "color_object c = \<lparr>contentText = None, color = Some c, margin = None\<rparr>"

definition margin_object :: "string \<Rightarrow> Attachment" where
  "margin_object m = \<lparr>contentText = None, color = None, margin = Some m\<rparr>"

text \<open>Object spread \<^verbatim>\<open>{...a, ...b}\<close>: the properties present in \<open>b\<close> win.\<close>

definition spread :: "Attachment \<Rightarrow> Attachment \<Rightarrow> Attachment" where
  "spread a b =
     \<lparr>contentText = (case contentText b of None \<Rightarrow> contentText a | Some x \<Rightarrow> Some x),
      color = (case color b of None \<Rightarrow> color a | Some x \<Rightarrow> Some x),
      margin = (case margin b of None \<Rightarrow> margin a | Some x \<Rightarrow> Some x)\<rparr>"

text \<open>Spreading an optional style: \<^verbatim>\<open>...undefined\<close> adds nothing.\<close>

fun spread_optional :: "Attachment \<Rightarrow> Attachment option \<Rightarrow> Attachment" where
  "spread_optional a None = a"
| "spread_optional a (Some b) = spread a b"

text \<open>The icons are the UTF-8 bytes of U+1F5D8, U+2B73 and U+26A0.\<close>

definition Icons_CHECKING :: string where
  "Icons_CHECKING = [CHR 0xF0, CHR 0x9F, CHR 0x97, CHR 0x98]"

definition Icons_PENDING :: string where
  "Icons_PENDING = [CHR 0xE2, CHR 0xAD, CHR 0xB3]"

definition Icons_UPDATABLE :: string where
  "Icons_UPDATABLE = [CHR 0xE2, CHR 0x9A, CHR 0xA0]"

definition Margins_MARGIN_INITIAL :: Attachment where
  "Margins_MARGIN_INITIAL = margin_object ''0 0 0 2ch''"

definition Margins_MARGIN_THEN :: Attachment where
  "Margins_MARGIN_THEN = margin_object ''0 0 0 1ch''"

definition ThemeLight_DEFAULT :: Attachment where
  "ThemeLight_DEFAULT = color_object ''silver''"

definition ThemeLight_ICON_AVAILABLE :: Attachment where
  "ThemeLight_ICON_AVAILABLE = color_object ''gray''"

definition ThemeLight_ICON_UPDATABLE :: Attachment where
  "ThemeLight_ICON_UPDATABLE = color_object ''gold''"

definition ThemeLight_LABEL_FORMALIZATION :: Attachment where
  "ThemeLight_LABEL_FORMALIZATION = color_object ''silver''"

definition ThemeLight_LABEL_MAJOR :: Attachment where
  "ThemeLight_LABEL_MAJOR = color_object ''#A31515''"

definition ThemeLight_LABEL_PENDING :: Attachment where
  "ThemeLight_LABEL_PENDING = color_object ''gray''"

definition ThemeLight_LABEL_PRERELEASE :: Attachment where
  "ThemeLight_LABEL_PRERELEASE = color_object ''#0451A5''"

definition ThemeLight_LABEL_UPDATABLE :: Attachment where
  "ThemeLight_LABEL_UPDATABLE = color_object ''gray''"

definition ThemeLight_LABEL_VERSION :: Attachment where
  "ThemeLight_LABEL_VERSION = color_object ''#001080''"

definition ThemeDark_DEFAULT :: Attachment where
  "ThemeDark_DEFAULT = color_object ''gray''"

definition ThemeDark_ICON_AVAILABLE :: Attachment where
  "ThemeDark_ICON_AVAILABLE = color_object ''silver''"

definition ThemeDark_ICON_UPDATABLE :: Attachment where
  "ThemeDark_ICON_UPDATABLE = color_object ''yellow''"

definition ThemeDark_LABEL_FORMALIZATION :: Attachment where
  "ThemeDark_LABEL_FORMALIZATION = color_object ''gray''"

definition ThemeDark_LABEL_MAJOR :: Attachment where
  "ThemeDark_LABEL_MAJOR = color_object ''#F97583''"

definition ThemeDark_LABEL_PENDING :: Attachment where
  "ThemeDark_LABEL_PENDING = color_object ''silver''"

definition ThemeDark_LABEL_PRERELEASE :: Attachment where
  "ThemeDark_LABEL_PRERELEASE = color_object ''#B392F0''"

definition ThemeDark_LABEL_UPDATABLE :: Attachment where
  "ThemeDark_LABEL_UPDATABLE = color_object ''silver''"

definition ThemeDark_LABEL_VERSION :: Attachment where
  "ThemeDark_LABEL_VERSION = color_object ''#9CDCFE''"

subsection \<open>Messages, decorations, layers\<close>

record Message =
  message :: string
  styleDefault :: "Attachment option"
  styleDark :: "Attachment option"

text \<open>\<^verbatim>\<open>new Message(text)\<close>, \<^verbatim>\<open>new Message(text, styleDefault, styleDark)\<close>.\<close>

definition new_Message1 :: "string \<Rightarrow> Message" where
  "new_Message1 m = \<lparr>message = m, styleDefault = None, styleDark = None\<rparr>"

definition new_Message3 :: "string \<Rightarrow> Attachment \<Rightarrow> Attachment \<Rightarrow> Message" where
  "new_Message3 m sd sk = \<lparr>message = m, styleDefault = Some sd, styleDark = Some sk\<rparr>"

record Position =
  line :: nat
  character :: nat

text \<open>
  \<^verbatim>\<open>DecorationOptions\<close>: the range with its two positions, \<^verbatim>\<open>renderOptions.after\<close>
  and \<^verbatim>\<open>renderOptions.dark.after\<close>.
\<close>

record DecorationOptions =
  range_start :: Position
  range_end :: Position
  after :: Attachment
  dark_after :: Attachment

text \<open>
  A layer: \<open>lines\<close> is the JavaScript object keyed by line number (an association
  list with at most one entry per key), \<open>type\<close> the handle that
  \<^verbatim>\<open>window.createTextEditorDecorationType\<close> returned for it.
\<close>

record DocumentDecorationLayer =
  lines :: "(nat \<times> DecorationOptions) list"
  type :: nat

text \<open>
  \<open>layers\<close> is a JavaScript array: assigning beyond its length leaves holes, which
  read as \<^verbatim>\<open>undefined\<close> and which \<^verbatim>\<open>forEach\<close> skips. A hole is \<open>None\<close>.
\<close>

record DocumentDecorationManager =
  layers :: "DocumentDecorationLayer option list"

definition array_get :: "'a option list \<Rightarrow> nat \<Rightarrow> 'a option" where
  "array_get xs i = (if i < length xs then xs ! i else None)"

definition array_set :: "'a option list \<Rightarrow> nat \<Rightarrow> 'a \<Rightarrow> 'a option list" where
  "array_set xs i v =
     (if i < length xs then xs[i := Some v]
      else xs @ replicate (i - length xs) None @ [Some v])"

text \<open>The elements \<^verbatim>\<open>forEach\<close> visits, in order.\<close>

definition present :: "'a option list \<Rightarrow> 'a list" where
  "present xs = concat (map (\<lambda>x. case x of None \<Rightarrow> [] | Some v \<Rightarrow> [v]) xs)"

text \<open>
  \<^verbatim>\<open>Object.values(layer.lines).flat()\<close>: the values by ascending key (the keys are
  array indices); the values are objects, so \<^verbatim>\<open>flat\<close> changes nothing.
\<close>

definition Object_values :: "(nat \<times> 'v) list \<Rightarrow> 'v list" where
  "Object_values al = map snd (sort_key fst al)"

subsection \<open>The host: editors and decoration types\<close>

record TextEditor =
  editor_document :: nat
  decorations :: "nat \<Rightarrow> DecorationOptions list"

text \<open>
  \<open>textEditors\<close> is the store of editor objects, \<open>visibleTextEditors\<close> the references
  \<^verbatim>\<open>window.visibleTextEditors\<close> holds, \<open>decorationTypes\<close> the number of decoration
  types created so far: \<^verbatim>\<open>createTextEditorDecorationType\<close> returns a new handle on
  every call.
\<close>

record Window =
  visibleTextEditors :: "nat list"
  textEditors :: "nat \<Rightarrow> TextEditor"
  decorationTypes :: nat

definition createTextEditorDecorationType :: "Window \<Rightarrow> nat \<times> Window" where
  "createTextEditorDecorationType win =
     (decorationTypes win, win\<lparr>decorationTypes := Suc (decorationTypes win)\<rparr>)"

definition setDecorations :: "nat \<Rightarrow> nat \<Rightarrow> DecorationOptions list \<Rightarrow> Window \<Rightarrow> Window" where
  "setDecorations editor ty opts win =
     win\<lparr>textEditors := (textEditors win)
       (editor := (textEditors win editor)
          \<lparr>decorations := (decorations (textEditors win editor))(ty := opts)\<rparr>)\<rparr>"

definition new_DocumentDecorationLayer :: "Window \<Rightarrow> DocumentDecorationLayer \<times> Window" where
  "new_DocumentDecorationLayer win =
     (let (ty, win') = createTextEditorDecorationType win
      in (\<lparr>lines = [], type = ty\<rparr>, win'))"

subsection \<open>DocumentDecorationManager\<close>

definition getLayer ::
  "nat \<Rightarrow> DocumentDecorationManager \<Rightarrow> Window
     \<Rightarrow> DocumentDecorationLayer \<times> DocumentDecorationManager \<times> Window" where
  "getLayer layer this win =
     (case array_get (layers this) layer of
        None \<Rightarrow>
          (let (l, win') = new_DocumentDecorationLayer win
           in (l, this\<lparr>layers := array_set (layers this) layer l\<rparr>, win'))
      | Some l \<Rightarrow> (l, this, win))"

definition flushLayers :: "DocumentDecorationManager \<Rightarrow> DocumentDecorationManager" where
  "flushLayers this =
     this\<lparr>layers := map (map_option (\<lambda>layer. layer\<lparr>lines := []\<rparr>)) (layers this)\<rparr>"

text \<open>
  The static table \<^verbatim>\<open>documents\<close> and the host make up the world the methods run in.
\<close>

record World =
  documents :: "nat \<rightharpoonup> DocumentDecorationManager"
  window :: Window

definition fromDocument ::
  "nat \<Rightarrow> (nat \<rightharpoonup> DocumentDecorationManager)
     \<Rightarrow> DocumentDecorationManager \<times> (nat \<rightharpoonup> DocumentDecorationManager)" where
  "fromDocument document docs =
     (case docs document of
        None \<Rightarrow> (\<lparr>layers = []\<rparr>, docs(document \<mapsto> \<lparr>layers = []\<rparr>))
      | Some m \<Rightarrow> (m, docs))"

definition flushDocument :: "nat \<Rightarrow> World \<Rightarrow> World" where
  "flushDocument document w =
     (let (m, docs) = fromDocument document (documents w);
          win = foldl (\<lambda>win layer.
                   foldl (\<lambda>win editor.
                       if editor_document (textEditors win editor) = document
                       then setDecorations editor (type layer) [] win
                       else win)
                     win (visibleTextEditors win))
                 (window w) (present (layers m))
      in \<lparr>documents = docs(document := None), window = win\<rparr>)"

subsection \<open>DocumentDecoration\<close>

text \<open>
  Modelled from the spec: \<^verbatim>\<open>lazyCallback\<close> of \<^verbatim>\<open>./Utils\<close>, which is not among the
  sources. Calling the debounced \<^verbatim>\<open>render\<close> schedules one paint unless one is
  already scheduled; \<open>render_pending\<close> records that. The delay itself is not
  modelled: \<open>render_fire\<close> is the moment the timer runs the callback.
\<close>

record DocumentDecoration =
  document :: nat
  editors :: "nat list"
  flushed :: bool
  render_pending :: bool

definition new_DocumentDecoration :: "nat \<Rightarrow> World \<Rightarrow> DocumentDecoration" where
  "new_DocumentDecoration doc w =
     \<lparr>document = doc,
      editors = filter (\<lambda>editor. editor_document (textEditors (window w) editor) = doc)
                  (visibleTextEditors (window w)),
      flushed = False,
      render_pending = False\<rparr>"

definition render :: "DocumentDecoration \<Rightarrow> DocumentDecoration" where
  "render this = this\<lparr>render_pending := True\<rparr>"

definition render_callback :: "DocumentDecoration \<Rightarrow> World \<Rightarrow> World" where
  "render_callback this w =
     (let (m, docs) = fromDocument (document this) (documents w);
          win = foldl (\<lambda>win layer.
                   foldl (\<lambda>win editor.
                       setDecorations editor (type layer) (Object_values (lines layer)) win)
                     win (editors this))
                 (window w) (present (layers m))
      in \<lparr>documents = docs, window = win\<rparr>)"

definition render_fire :: "DocumentDecoration \<times> World \<Rightarrow> DocumentDecoration \<times> World" where
  "render_fire tw =
     (case tw of (this, w) \<Rightarrow>
        if render_pending this
        then (this\<lparr>render_pending := False\<rparr>, render_callback this w)
        else (this, w))"

text \<open>The object literal \<^verbatim>\<open>setLine\<close> stores for one message.\<close>

definition decoration :: "nat \<Rightarrow> nat \<Rightarrow> Message \<Rightarrow> DecorationOptions" where
  "decoration ln messageIndex msg =
     \<lparr>range_start = \<lparr>line = ln, character = 4096\<rparr>,
      range_end = \<lparr>line = ln, character = 4096\<rparr>,
      after =
        spread_optional
          (spread
             (spread (empty_object\<lparr>contentText := Some (message msg)\<rparr>) ThemeLight_DEFAULT)
             (if messageIndex = 0 then Margins_MARGIN_INITIAL else Margins_MARGIN_THEN))
          (styleDefault msg),
      dark_after = spread_optional (spread empty_object ThemeDark_DEFAULT) (styleDark msg)\<rparr>"

text \<open>
  \<^verbatim>\<open>messages.forEach((message, messageIndex) => ...)\<close>, from index \<open>messageIndex\<close> on.
  The layer that \<open>getLayer\<close> returns is a reference into \<open>layers\<close>, so the
  assignment to its \<open>lines\<close> is an update of the array element.
\<close>

fun setLine_forEach ::
  "nat \<Rightarrow> nat \<Rightarrow> Message list \<Rightarrow> DocumentDecorationManager \<Rightarrow> Window
     \<Rightarrow> DocumentDecorationManager \<times> Window" where
  "setLine_forEach ln messageIndex [] m win = (m, win)"
| "setLine_forEach ln messageIndex (msg # rest) m win =
     (let (decorationLayer, m1, win1) = getLayer messageIndex m win;
          decorationLayer' = decorationLayer
            \<lparr>lines := AList.update ln (decoration ln messageIndex msg) (lines decorationLayer)\<rparr>;
          m2 = m1\<lparr>layers := array_set (layers m1) messageIndex decorationLayer'\<rparr>
      in setLine_forEach ln (Suc messageIndex) rest m2 win1)"

definition setLine ::
  "nat \<Rightarrow> Message list \<Rightarrow> DocumentDecoration \<times> World \<Rightarrow> DocumentDecoration \<times> World" where
  "setLine ln messages tw =
     (case tw of (this, w) \<Rightarrow>
        let (decorationManager, docs) = fromDocument (document this) (documents w);
            (this1, m1) = (if \<not> flushed this
                           then (this\<lparr>flushed := True\<rparr>, flushLayers decorationManager)
                           else (this, decorationManager));
            (m2, win2) = setLine_forEach ln 0 messages m1 (window w)
        in (render this1, \<lparr>documents = docs(document this \<mapsto> m2), window = win2\<rparr>))"

definition clearLine :: "nat \<Rightarrow> DocumentDecoration \<times> World \<Rightarrow> DocumentDecoration \<times> World" where
  "clearLine ln tw =
     (case tw of (this, w) \<Rightarrow>
        let (m, docs) = fromDocument (document this) (documents w);
            m' = m\<lparr>layers := map (map_option (\<lambda>decoration.
                     decoration\<lparr>lines := AList.delete ln (lines decoration)\<rparr>)) (layers m)\<rparr>
        in (render this, w\<lparr>documents := docs(document this \<mapsto> m')\<rparr>))"

definition setCheckingMessage ::
  "nat \<Rightarrow> DocumentDecoration \<times> World \<Rightarrow> DocumentDecoration \<times> World" where
  "setCheckingMessage ln tw = setLine ln [new_Message1 Icons_CHECKING] tw"

subsection \<open>setUpdateMessage\<close>

text \<open>
  \<^verbatim>\<open>packageInfo.packageRelated\<close> is an object of \<^verbatim>\<open>./Diagnostic\<close>; the record holds
  the values its asynchronous getters resolve to. A version is a string, \<^verbatim>\<open>null\<close>
  or \<^verbatim>\<open>undefined\<close>; the source tests it as a condition, where the empty string is
  false as well. The method reads and writes the layers only in its last statement, after
  every \<^verbatim>\<open>await\<close>, so it is a function of the state at that moment.
\<close>

record PackageRelated =
  getVersionLatest :: "string option"
  getVersionInstalled :: "string option"
  isVersionMaxed :: bool
  isVersionLatestAlreadyInstalled :: bool
  isVersionMajorUpdate :: bool

fun truthy :: "string option \<Rightarrow> bool" where
  "truthy None = False"
| "truthy (Some s) = (s \<noteq> [])"

text \<open>
  The list \<^verbatim>\<open>updateDetails\<close> as it stands when \<^verbatim>\<open>setLine\<close> is called. \<open>t\<close> is
  \<^verbatim>\<open>l10n.t\<close> and \<open>prerelease\<close> is semver's function, both of other packages;
  \<open>prerelease\<close> returns the pre-release components or \<^verbatim>\<open>null\<close>.
\<close>

definition updateDetails ::
  "(string \<Rightarrow> string) \<Rightarrow> (string \<Rightarrow> string list option) \<Rightarrow> PackageRelated \<Rightarrow> string
     \<Rightarrow> Message list" where
  "updateDetails t prerelease packageRelated versionLatest =
     (let packageVersionInstalled = getVersionInstalled packageRelated
      in
        [new_Message3 Icons_UPDATABLE ThemeLight_ICON_UPDATABLE ThemeDark_ICON_UPDATABLE,
         new_Message3
           (if truthy packageVersionInstalled
            then t ''Update available:'' else t ''Latest version:'')
           ThemeLight_LABEL_UPDATABLE ThemeDark_LABEL_UPDATABLE,
         new_Message3 versionLatest ThemeLight_LABEL_VERSION ThemeDark_LABEL_VERSION]
        @ (if \<not> truthy packageVersionInstalled
           then [new_Message3 (''('' @ t ''install pending'' @ '')'')
                   ThemeLight_LABEL_PENDING ThemeDark_LABEL_PENDING]
           else if isVersionLatestAlreadyInstalled packageRelated
           then [new_Message3 (''('' @ t ''already installed, just formalization'' @ '')'')
                   ThemeLight_LABEL_FORMALIZATION ThemeDark_LABEL_FORMALIZATION]
           else [])
        @ (if isVersionMajorUpdate packageRelated
           then [new_Message3 (''('' @ t ''attention: major update!'' @ '')'')
                   ThemeLight_LABEL_MAJOR ThemeDark_LABEL_MAJOR]
           else [])
        @ (if prerelease versionLatest \<noteq> None
           then [new_Message3 (''<'' @ t ''pre-release'' @ ''>'')
                   ThemeLight_LABEL_PRERELEASE ThemeDark_LABEL_PRERELEASE]
           else []))"

definition setUpdateMessage ::
  "(string \<Rightarrow> string) \<Rightarrow> (string \<Rightarrow> string list option) \<Rightarrow> nat \<Rightarrow> PackageRelated
     \<Rightarrow> DocumentDecoration \<times> World \<Rightarrow> DocumentDecoration \<times> World" where
  "setUpdateMessage t prerelease ln packageRelated tw =
     (case getVersionLatest packageRelated of
        None \<Rightarrow> tw
      | Some versionLatest \<Rightarrow>
          if versionLatest = [] then tw
          else if \<not> truthy (getVersionInstalled packageRelated) \<and> isVersionMaxed packageRelated
          then setLine ln
                 [new_Message3 Icons_PENDING ThemeLight_ICON_AVAILABLE ThemeDark_ICON_AVAILABLE,
                  new_Message1 (t ''Install pending'')] tw
          else setLine ln (updateDetails t prerelease packageRelated versionLatest) tw)"

subsection \<open>Reading the layers\<close>

text \<open>The entry layer \<open>i\<close> of a manager holds for line \<open>n\<close>, if any.\<close>

definition entry :: "DocumentDecorationManager \<Rightarrow> nat \<Rightarrow> nat \<Rightarrow> DecorationOptions option" where
  "entry m i n = (case array_get (layers m) i of None \<Rightarrow> None | Some l \<Rightarrow> map_of (lines l) n)"

text \<open>The manager a document has in the table, as \<^verbatim>\<open>fromDocument\<close> would return it.\<close>

definition manager_of :: "World \<Rightarrow> nat \<Rightarrow> DocumentDecorationManager" where
  "manager_of w doc = fst (fromDocument doc (documents w))"

text \<open>The text an entry shows: \<^verbatim>\<open>renderOptions.after.contentText\<close>.\<close>

definition shown :: "World \<Rightarrow> nat \<Rightarrow> nat \<Rightarrow> nat \<Rightarrow> string option" where
  "shown w doc i n =
     (case entry (manager_of w doc) i n of None \<Rightarrow> None | Some d \<Rightarrow> contentText (after d))"

subsection \<open>Concrete inputs\<close>

text \<open>
  \<^verbatim>\<open>l10n.t\<close> without a translation bundle returns the English text it is given.
  \<open>prerelease_example\<close> is semver's \<^verbatim>\<open>prerelease\<close> on the versions used below.
\<close>

definition english :: "string \<Rightarrow> string" where
  "english s = s"

definition prerelease_example :: "string \<Rightarrow> string list option" where
  "prerelease_example v = (if v = ''2.0.0-beta.1'' then Some [''beta'', ''1''] else None)"

text \<open>One visible editor, number 0, showing document 7; nothing painted, no layer yet.\<close>

definition example_window :: Window where
  "example_window =
     \<lparr>visibleTextEditors = [0],
      textEditors = (\<lambda>e. \<lparr>editor_document = 7, decorations = (\<lambda>ty. [])\<rparr>),
      decorationTypes = 0\<rparr>"

definition example_world :: World where
  "example_world = \<lparr>documents = Map.empty, window = example_window\<rparr>"

definition example_decoration :: DocumentDecoration where
  "example_decoration = new_DocumentDecoration 7 example_world"

text \<open>
  The world a finished check leaves behind: document 7 has one layer with the checking
  icon on lines 3 and 4, and editor 0 has it painted.
\<close>

definition checked_lines :: "(nat \<times> DecorationOptions) list" where
  "checked_lines =
     [(3, decoration 3 0 (new_Message1 Icons_CHECKING)),
      (4, decoration 4 0 (new_Message1 Icons_CHECKING))]"

definition checked_world :: World where
  "checked_world =
     \<lparr>documents = [7 \<mapsto> \<lparr>layers = [Some \<lparr>lines = checked_lines, type = 0\<rparr>]\<rparr>],
      window =
        \<lparr>visibleTextEditors = [0],
         textEditors = (\<lambda>e. \<lparr>editor_document = 7,
                              decorations = (\<lambda>ty. Object_values checked_lines)\<rparr>),
         decorationTypes = 1\<rparr>\<rparr>"

definition package_unknown :: PackageRelated where
  "package_unknown =
     \<lparr>getVersionLatest = None, getVersionInstalled = Some ''1.0.0'', isVersionMaxed = False,
      isVersionLatestAlreadyInstalled = False, isVersionMajorUpdate = False\<rparr>"

definition package_foo :: PackageRelated where
  "package_foo =
     \<lparr>getVersionLatest = Some ''1.0.0'', getVersionInstalled = None, isVersionMaxed = True,
      isVersionLatestAlreadyInstalled = False, isVersionMajorUpdate = False\<rparr>"

definition package_bar :: PackageRelated where
  "package_bar =
     \<lparr>getVersionLatest = Some ''2.0.0-beta.1'', getVersionInstalled = Some ''1.0.0'',
      isVersionMaxed = False, isVersionLatestAlreadyInstalled = False,
      isVersionMajorUpdate = True\<rparr>"

definition package_baz :: PackageRelated where
  "package_baz =
     \<lparr>getVersionLatest = Some ''2.0.0-beta.1'', getVersionInstalled = None,
      isVersionMaxed = False, isVersionLatestAlreadyInstalled = False,
      isVersionMajorUpdate = True\<rparr>"

section \<open>Properties\<close>

subsection \<open>Auxiliary facts\<close>

lemma array_get_array_set:
  "array_get (array_set xs i v) j = (if j = i then Some v else array_get xs j)"
  by (auto simp: array_get_def array_set_def nth_append nth_list_update)

lemma getLayer_entry:
  "getLayer i m win = (l, m', win') \<Longrightarrow> entry m' j n = entry m j n"
  by (cases "j = i")
    (auto simp: getLayer_def new_DocumentDecorationLayer_def createTextEditorDecorationType_def
      entry_def array_get_array_set split: option.splits)

lemma getLayer_lines:
  "getLayer i m win = (l, m', win') \<Longrightarrow> map_of (lines l) n = entry m i n"
  by (auto simp: getLayer_def new_DocumentDecorationLayer_def createTextEditorDecorationType_def
      entry_def array_get_array_set split: option.splits)

lemma setLine_forEach_entry:
  "entry (fst (setLine_forEach ln k msgs m win)) i n =
     (if n = ln \<and> k \<le> i \<and> i < k + length msgs
      then Some (decoration ln i (msgs ! (i - k)))
      else entry m i n)"
proof (induction msgs arbitrary: k m win)
  case Nil
  then show ?case by auto
next
  case (Cons msg rest)
  obtain l m1 win1 where g: "getLayer k m win = (l, m1, win1)"
    by (cases "getLayer k m win") auto
  define m2 where "m2 = m1\<lparr>layers := array_set (layers m1) k
      (l\<lparr>lines := AList.update ln (decoration ln k msg) (lines l)\<rparr>)\<rparr>"
  have step: "setLine_forEach ln k (msg # rest) m win = setLine_forEach ln (Suc k) rest m2 win1"
    by (simp add: g m2_def)
  have e2: "entry m2 i n = (if i = k \<and> n = ln then Some (decoration ln k msg) else entry m i n)"
    using getLayer_entry [OF g, of i n] getLayer_lines [OF g, of n]
    by (auto simp: m2_def entry_def array_get_array_set update_conv')
  show ?case
    unfolding step Cons.IH e2
    by (auto simp: nth_Cons' less_Suc_eq_le)
qed

lemma flushLayers_entry: "entry (flushLayers m) i n = None"
  by (auto simp: entry_def flushLayers_def array_get_def split: option.splits)

lemma manager_of_put: "manager_of \<lparr>documents = docs(d \<mapsto> m), window = win\<rparr> d = m"
  by (simp add: manager_of_def fromDocument_def)

lemma setLine_world:
  "snd (setLine ln msgs (this, w)) =
     \<lparr>documents = (snd (fromDocument (document this) (documents w)))
        (document this \<mapsto>
           fst (setLine_forEach ln 0 msgs
             (if flushed this then manager_of w (document this)
              else flushLayers (manager_of w (document this))) (window w))),
      window = snd (setLine_forEach ln 0 msgs
             (if flushed this then manager_of w (document this)
              else flushLayers (manager_of w (document this))) (window w))\<rparr>"
  by (simp add: setLine_def manager_of_def split: prod.splits)

lemma setLine_entry:
  "entry (manager_of (snd (setLine ln msgs (this, w))) (document this)) i n =
     (if n = ln \<and> i < length msgs then Some (decoration ln i (msgs ! i))
      else if flushed this then entry (manager_of w (document this)) i n
      else None)"
  unfolding setLine_world manager_of_put
  by (simp add: setLine_forEach_entry flushLayers_entry)

lemma setLine_this:
  "fst (setLine ln msgs (this, w)) = this\<lparr>flushed := True, render_pending := True\<rparr>"
  by (cases "flushed this") (auto simp: setLine_def render_def split: prod.splits)

lemma clearLine_world:
  "snd (clearLine n (this, w)) =
     w\<lparr>documents := (snd (fromDocument (document this) (documents w)))
        (document this \<mapsto>
           (manager_of w (document this))
             \<lparr>layers := map (map_option (\<lambda>l. l\<lparr>lines := AList.delete n (lines l)\<rparr>))
                (layers (manager_of w (document this)))\<rparr>)\<rparr>"
  by (simp add: clearLine_def manager_of_def split: prod.splits)

lemma manager_of_update:
  "manager_of (w\<lparr>documents := docs(d \<mapsto> m)\<rparr>) d = m"
  by (simp add: manager_of_def fromDocument_def)

lemma entry_delete:
  "entry (m\<lparr>layers := map (map_option (\<lambda>l. l\<lparr>lines := AList.delete n (lines l)\<rparr>)) (layers m)\<rparr>) i k
     = (if k = n then None else entry m i k)"
  by (auto simp: entry_def array_get_def delete_conv' split: option.splits)

lemma clear_editors:
  assumes G: "G = (\<lambda>win editor.
        if editor_document (textEditors win editor) = d
        then setDecorations editor ty [] win else win)"
  shows "visibleTextEditors (foldl G win es) = visibleTextEditors win \<and>
   decorationTypes (foldl G win es) = decorationTypes win \<and>
   (\<forall>e. editor_document (textEditors (foldl G win es) e) = editor_document (textEditors win e)) \<and>
   (\<forall>e ty'. decorations (textEditors (foldl G win es) e) ty'
      = (if e \<in> set es \<and> editor_document (textEditors win e) = d \<and> ty' = ty then []
         else decorations (textEditors win e) ty'))"
proof (induction es arbitrary: win)
  case Nil
  then show ?case by simp
next
  case (Cons a es)
  have v: "visibleTextEditors (G win a) = visibleTextEditors win"
    and t: "decorationTypes (G win a) = decorationTypes win"
    and d: "\<And>e. editor_document (textEditors (G win a) e) = editor_document (textEditors win e)"
    and p: "\<And>e ty'. decorations (textEditors (G win a) e) ty'
      = (if e = a \<and> editor_document (textEditors win e) = d \<and> ty' = ty then []
         else decorations (textEditors win e) ty')"
    by (simp_all add: G setDecorations_def)
  have step: "foldl G win (a # es) = foldl G (G win a) es"
    by simp
  show ?case
    unfolding step
    using Cons.IH [of "G win a"]
    by (auto simp: v t d p)
qed

lemma clear_layers:
  assumes F: "F = (\<lambda>win layer.
        foldl (\<lambda>win editor.
            if editor_document (textEditors win editor) = d
            then setDecorations editor (type layer) [] win else win)
          win (visibleTextEditors win))"
  shows "visibleTextEditors (foldl F win ls) = visibleTextEditors win \<and>
   decorationTypes (foldl F win ls) = decorationTypes win \<and>
   (\<forall>e. editor_document (textEditors (foldl F win ls) e) = editor_document (textEditors win e)) \<and>
   (\<forall>e ty'. decorations (textEditors (foldl F win ls) e) ty'
      = (if e \<in> set (visibleTextEditors win) \<and> editor_document (textEditors win e) = d
            \<and> ty' \<in> type ` set ls then []
         else decorations (textEditors win e) ty'))"
proof (induction ls arbitrary: win)
  case Nil
  then show ?case by simp
next
  case (Cons l ls)
  have v: "visibleTextEditors (F win l) = visibleTextEditors win"
    and t: "decorationTypes (F win l) = decorationTypes win"
    and d: "\<And>e. editor_document (textEditors (F win l) e) = editor_document (textEditors win e)"
    and p: "\<And>e ty'. decorations (textEditors (F win l) e) ty'
      = (if e \<in> set (visibleTextEditors win) \<and> editor_document (textEditors win e) = d
            \<and> ty' = type l then []
         else decorations (textEditors win e) ty')"
    by (simp_all add: F clear_editors [OF refl])
  have step: "foldl F win (l # ls) = foldl F (F win l) ls"
    by simp
  show ?case
    unfolding step
    using Cons.IH [of "F win l"]
    by (auto simp: v t d p)
qed

lemma flushDocument_world:
  "flushDocument d w =
     \<lparr>documents = (snd (fromDocument d (documents w)))(d := None),
      window = foldl (\<lambda>win layer.
                   foldl (\<lambda>win editor.
                       if editor_document (textEditors win editor) = d
                       then setDecorations editor (type layer) [] win
                       else win)
                     win (visibleTextEditors win))
                 (window w) (present (layers (manager_of w d)))\<rparr>"
  by (simp add: flushDocument_def manager_of_def split: prod.splits)

lemma example_decoration_fields:
  "document example_decoration = 7" "\<not> flushed example_decoration"
  by (simp_all add: example_decoration_def new_DocumentDecoration_def)

lemma contentText_decoration:
  "contentText (after (decoration ln i (new_Message3 m (color_object c) sk))) = Some m"
  "contentText (after (decoration ln i (new_Message1 m))) = Some m"
  by (simp_all add: decoration_def new_Message3_def new_Message1_def spread_def color_object_def
      margin_object_def empty_object_def ThemeLight_DEFAULT_def Margins_MARGIN_INITIAL_def
      Margins_MARGIN_THEN_def)

lemma setLine_shown:
  "i < length msgs \<Longrightarrow>
   shown (snd (setLine ln msgs (this, w))) (document this) i ln =
     contentText (after (decoration ln i (msgs ! i)))"
  by (simp add: shown_def setLine_entry)

lemma setUpdateMessage_branches:
  "getVersionLatest pkg = Some v \<Longrightarrow> v \<noteq> [] \<Longrightarrow>
   setUpdateMessage t pr ln pkg tw =
     (if \<not> truthy (getVersionInstalled pkg) \<and> isVersionMaxed pkg
      then setLine ln
             [new_Message3 Icons_PENDING ThemeLight_ICON_AVAILABLE ThemeDark_ICON_AVAILABLE,
              new_Message1 (t ''Install pending'')] tw
      else setLine ln (updateDetails t pr pkg v) tw)"
  by (simp add: setUpdateMessage_def)

lemma checked_world_entry:
  "entry (manager_of checked_world 7) 0 3 = Some (decoration 3 0 (new_Message1 Icons_CHECKING))"
  "entry (manager_of checked_world 7) 0 4 = Some (decoration 4 0 (new_Message1 Icons_CHECKING))"
  by (simp_all add: checked_world_def checked_lines_def manager_of_def fromDocument_def entry_def
      array_get_def)

lemma updateDetails_first_three:
  "updateDetails t pr pkg v ! 0 =
     new_Message3 Icons_UPDATABLE ThemeLight_ICON_UPDATABLE ThemeDark_ICON_UPDATABLE"
  "updateDetails t pr pkg v ! Suc 0 =
     new_Message3
       (if truthy (getVersionInstalled pkg) then t ''Update available:'' else t ''Latest version:'')
       ThemeLight_LABEL_UPDATABLE ThemeDark_LABEL_UPDATABLE"
  "updateDetails t pr pkg v ! 2 =
     new_Message3 v ThemeLight_LABEL_VERSION ThemeDark_LABEL_VERSION"
  "3 \<le> length (updateDetails t pr pkg v)"
  by (simp_all add: updateDetails_def Let_def numeral_2_eq_2)

lemma checking_state:
  "setCheckingMessage 5 (example_decoration, example_world) =
     (\<lparr>document = 7, editors = [0], flushed = True, render_pending = True\<rparr>,
      \<lparr>documents = [7 \<mapsto> \<lparr>layers =
          [Some \<lparr>lines = [(5, decoration 5 0 (new_Message1 Icons_CHECKING))], type = 0\<rparr>]\<rparr>],
       window = example_window\<lparr>decorationTypes := 1\<rparr>\<rparr>)"
  by (simp add: setCheckingMessage_def setLine_def example_decoration_def
      new_DocumentDecoration_def example_world_def example_window_def fromDocument_def
      flushLayers_def getLayer_def array_get_def array_set_def new_DocumentDecorationLayer_def
      createTextEditorDecorationType_def render_def)

lemma clearLine_this:
  "fst (clearLine n (this, w)) = this\<lparr>render_pending := True\<rparr>"
  by (simp add: clearLine_def render_def split: prod.splits)

subsection \<open>The layers of a manager\<close>

text \<open>
  C9. \<open>getLayer i\<close> returns the layer at slot \<open>i\<close>, which is in the array afterwards.
  When the slot held a layer, that layer is returned and neither the manager nor the host
  changes; when it held none, the layer is new, with no lines and the decoration type the
  host hands out next. No other slot changes (a hole stays a hole), and a second call with
  the same index returns the same layer and changes nothing.
\<close>

theorem getLayer_creates_on_demand:
  "getLayer i m win = (l, m', win') \<Longrightarrow>
     array_get (layers m') i = Some l \<and>
     (\<forall>j. j \<noteq> i \<longrightarrow> array_get (layers m') j = array_get (layers m) j) \<and>
     (case array_get (layers m) i of
        Some l0 \<Rightarrow> l = l0 \<and> m' = m \<and> win' = win
      | None \<Rightarrow> l = \<lparr>lines = [], type = decorationTypes win\<rparr> \<and>
                 decorationTypes win' = Suc (decorationTypes win)) \<and>
     getLayer i m' win' = (l, m', win')"
  by (auto simp: getLayer_def new_DocumentDecorationLayer_def createTextEditorDecorationType_def
      array_get_array_set split: option.splits)

theorem getLayer_creates_on_demand_witness:
  "getLayer 2 \<lparr>layers = []\<rparr> example_window =
     (\<lparr>lines = [], type = 0\<rparr>,
      \<lparr>layers = [None, None, Some \<lparr>lines = [], type = 0\<rparr>]\<rparr>,
      example_window\<lparr>decorationTypes := 1\<rparr>) \<and>
   array_get [None, None, Some \<lparr>lines = [], type = 0\<rparr>] 2 = Some \<lparr>lines = [], type = (0::nat)\<rparr> \<and>
   array_get [None, None, Some \<lparr>lines = [], type = 0\<rparr>] 1 = (None :: DocumentDecorationLayer option) \<and>
   getLayer 2 \<lparr>layers = [None, None, Some \<lparr>lines = [], type = 0\<rparr>]\<rparr>
       (example_window\<lparr>decorationTypes := 1\<rparr>) =
     (\<lparr>lines = [], type = 0\<rparr>,
      \<lparr>layers = [None, None, Some \<lparr>lines = [], type = 0\<rparr>]\<rparr>,
      example_window\<lparr>decorationTypes := 1\<rparr>)"
proof -
  have g: "getLayer 2 \<lparr>layers = []\<rparr> example_window =
     (\<lparr>lines = [], type = 0\<rparr>,
      \<lparr>layers = [None, None, Some \<lparr>lines = [], type = 0\<rparr>]\<rparr>,
      example_window\<lparr>decorationTypes := 1\<rparr>)"
    by (simp add: getLayer_def new_DocumentDecorationLayer_def
        createTextEditorDecorationType_def array_get_def array_set_def example_window_def
        numeral_2_eq_2)
  note T = getLayer_creates_on_demand [OF g]
  from T [THEN conjunct1] T [THEN conjunct2, THEN conjunct1, rule_format, of 1]
    T [THEN conjunct2, THEN conjunct2, THEN conjunct2] g
  show ?thesis
    by (simp add: array_get_def)
qed

text \<open>
  C6. \<open>flushLayers\<close> keeps the array of layers as long as it was, keeps every hole, and
  replaces every layer by the layer of the same decoration type with no lines.
\<close>

theorem flushLayers_empties_lines_only:
  "length (layers (flushLayers m)) = length (layers m) \<and>
   (\<forall>i. array_get (layers (flushLayers m)) i =
      map_option (\<lambda>l. \<lparr>lines = [], type = type l\<rparr>) (array_get (layers m) i))"
  by (auto simp: flushLayers_def array_get_def map_option_case split: option.splits)

theorem flushLayers_empties_lines_only_witness:
  "array_get (layers (manager_of checked_world 7)) 0 = Some \<lparr>lines = checked_lines, type = 0\<rparr> \<and>
   array_get (layers (flushLayers (manager_of checked_world 7))) 0 = Some \<lparr>lines = [], type = 0\<rparr> \<and>
   length (layers (flushLayers (manager_of checked_world 7))) = 1"
proof -
  have m: "manager_of checked_world 7 = \<lparr>layers = [Some \<lparr>lines = checked_lines, type = 0\<rparr>]\<rparr>"
    by (simp add: checked_world_def manager_of_def fromDocument_def)
  have g: "array_get (layers (manager_of checked_world 7)) 0 = Some \<lparr>lines = checked_lines, type = 0\<rparr>"
    by (simp add: m array_get_def)
  note T = flushLayers_empties_lines_only [of "manager_of checked_world 7"]
  from T [THEN conjunct1] T [THEN conjunct2, rule_format, of 0] g show ?thesis
    by (simp add: m)
qed

text \<open>
  C8. \<open>flushDocument\<close> leaves every layer of the document with no painted decoration in
  every visible editor that shows the document, and removes the document from the table:
  \<open>fromDocument\<close> then creates a manager with no layers.
\<close>

theorem flushDocument_clears_and_forgets:
  "(\<forall>l \<in> set (present (layers (manager_of w d))).
      \<forall>e \<in> set (visibleTextEditors (window w)).
        editor_document (textEditors (window w) e) = d \<longrightarrow>
        decorations (textEditors (window (flushDocument d w)) e) (type l) = []) \<and>
   documents (flushDocument d w) d = None \<and>
   fromDocument d (documents (flushDocument d w)) =
     (\<lparr>layers = []\<rparr>, (documents (flushDocument d w))(d \<mapsto> \<lparr>layers = []\<rparr>))"
  unfolding flushDocument_world
  by (simp add: clear_layers [OF refl] fromDocument_def)

theorem flushDocument_clears_and_forgets_witness:
  "\<lparr>lines = checked_lines, type = 0\<rparr> \<in> set (present (layers (manager_of checked_world 7))) \<and>
   0 \<in> set (visibleTextEditors (window checked_world)) \<and>
   editor_document (textEditors (window checked_world) 0) = 7 \<and>
   decorations (textEditors (window checked_world) 0) 0 \<noteq> [] \<and>
   decorations (textEditors (window (flushDocument 7 checked_world)) 0) 0 = [] \<and>
   documents (flushDocument 7 checked_world) 7 = None \<and>
   fst (fromDocument 7 (documents (flushDocument 7 checked_world))) = \<lparr>layers = []\<rparr>"
proof -
  have l: "\<lparr>lines = checked_lines, type = 0\<rparr> \<in> set (present (layers (manager_of checked_world 7)))"
    by (simp add: checked_world_def manager_of_def fromDocument_def present_def)
  have e: "0 \<in> set (visibleTextEditors (window checked_world))"
    and d: "editor_document (textEditors (window checked_world) 0) = 7"
    and p: "decorations (textEditors (window checked_world) 0) 0 \<noteq> []"
    by (simp_all add: checked_world_def checked_lines_def Object_values_def)
  note T = flushDocument_clears_and_forgets [of checked_world 7]
  from T [THEN conjunct1, rule_format, OF l e d] T [THEN conjunct2] l e d p
  show ?thesis
    by simp
qed

subsection \<open>setLine and clearLine\<close>

text \<open>
  C5. An instance is created unflushed and every call of \<open>setLine\<close> leaves it flushed, so
  only the first call finds it unflushed. That call equals the call on the flushed instance
  after \<open>flushLayers\<close> has emptied the line maps of the document's manager. After any
  call, layer \<open>i\<close> holds for the given line the decoration built from the message at
  position \<open>i\<close>; every other entry is what it was when the instance was flushed
  already, and is gone when it was not.
\<close>

theorem setLine_flushes_first_then_stores:
  "\<not> flushed (new_DocumentDecoration doc w0) \<and>
   flushed (fst (setLine ln msgs (this, w))) \<and>
   (\<not> flushed this \<longrightarrow>
      setLine ln msgs (this, w) =
        setLine ln msgs
          (this\<lparr>flushed := True\<rparr>,
           w\<lparr>documents := (documents w)
                (document this \<mapsto> flushLayers (manager_of w (document this)))\<rparr>)) \<and>
   (\<forall>i n. entry (manager_of (snd (setLine ln msgs (this, w))) (document this)) i n =
      (if n = ln \<and> i < length msgs then Some (decoration ln i (msgs ! i))
       else if flushed this then entry (manager_of w (document this)) i n
       else None))"
proof (intro conjI)
  show "\<not> flushed (new_DocumentDecoration doc w0)"
    by (simp add: new_DocumentDecoration_def)
  show "flushed (fst (setLine ln msgs (this, w)))"
    by (simp add: setLine_this)
  show "\<not> flushed this \<longrightarrow>
      setLine ln msgs (this, w) =
        setLine ln msgs
          (this\<lparr>flushed := True\<rparr>,
           w\<lparr>documents := (documents w)
                (document this \<mapsto> flushLayers (manager_of w (document this)))\<rparr>)"
    by (auto simp: setLine_def manager_of_def fromDocument_def split: option.splits prod.splits)
  show "\<forall>i n. entry (manager_of (snd (setLine ln msgs (this, w))) (document this)) i n =
      (if n = ln \<and> i < length msgs then Some (decoration ln i (msgs ! i))
       else if flushed this then entry (manager_of w (document this)) i n
       else None)"
    by (simp add: setLine_entry)
qed

theorem setLine_flushes_first_then_stores_witness:
  "\<not> flushed example_decoration \<and>
   entry (manager_of checked_world 7) 0 3 \<noteq> None \<and>
   flushed (fst (setLine 5 [new_Message1 Icons_PENDING] (example_decoration, checked_world))) \<and>
   entry (manager_of (snd (setLine 5 [new_Message1 Icons_PENDING]
            (example_decoration, checked_world))) 7) 0 3 = None \<and>
   entry (manager_of (snd (setLine 5 [new_Message1 Icons_PENDING]
            (example_decoration, checked_world))) 7) 0 5
     = Some (decoration 5 0 (new_Message1 Icons_PENDING)) \<and>
   entry (manager_of (snd (setLine 3 [new_Message1 Icons_PENDING]
            (setLine 5 [new_Message1 Icons_PENDING] (example_decoration, checked_world)))) 7) 0 5
     = Some (decoration 5 0 (new_Message1 Icons_PENDING))"
proof -
  let ?first = "setLine 5 [new_Message1 Icons_PENDING] (example_decoration, checked_world)"
  note first = setLine_flushes_first_then_stores
    [of 7 example_world 5 "[new_Message1 Icons_PENDING]" example_decoration checked_world]
  note second = setLine_flushes_first_then_stores
    [of 7 example_world 3 "[new_Message1 Icons_PENDING]" "fst ?first" "snd ?first"]
  note first_entry = first [THEN conjunct2, THEN conjunct2, THEN conjunct2, rule_format]
  note second_entry = second [THEN conjunct2, THEN conjunct2, THEN conjunct2, rule_format]
  have d: "document (fst ?first) = 7"
    by (simp add: setLine_this example_decoration_fields)
  have f: "flushed (fst ?first)"
    by (rule first [THEN conjunct2, THEN conjunct1])
  have e1: "entry (manager_of (snd ?first) 7) 0 3 = None"
    using first_entry [of 0 3] by (simp add: example_decoration_fields)
  have e2: "entry (manager_of (snd ?first) 7) 0 5 = Some (decoration 5 0 (new_Message1 Icons_PENDING))"
    using first_entry [of 0 5] by (simp add: example_decoration_fields)
  have e3: "entry (manager_of (snd (setLine 3 [new_Message1 Icons_PENDING] ?first)) 7) 0 5
     = Some (decoration 5 0 (new_Message1 Icons_PENDING))"
    using second_entry [of 0 5] f e2 by (simp add: d)
  show ?thesis
    using f e1 e2 e3 by (simp add: example_decoration_fields checked_world_entry)
qed

text \<open>
  C10. On a flushed instance, \<open>setLine\<close> with a list of messages leaves the entry of the
  given line unchanged in every layer whose index is at least the length of the list: what
  a longer list stored there earlier stays.
\<close>

theorem setLine_keeps_higher_slots:
  "flushed this \<Longrightarrow> length msgs \<le> i \<Longrightarrow>
   entry (manager_of (snd (setLine ln msgs (this, w))) (document this)) i ln =
   entry (manager_of w (document this)) i ln"
  by (simp add: setLine_entry)

theorem setLine_keeps_higher_slots_witness:
  "flushed (fst (setLine 5 (updateDetails english prerelease_example package_bar ''2.0.0-beta.1'')
      (example_decoration, example_world))) \<and>
   length [new_Message1 Icons_CHECKING] \<le> 2 \<and>
   entry (manager_of (snd (setLine 5 [new_Message1 Icons_CHECKING]
      (setLine 5 (updateDetails english prerelease_example package_bar ''2.0.0-beta.1'')
         (example_decoration, example_world)))) 7) 2 5 =
     Some (decoration 5 2
       (new_Message3 ''2.0.0-beta.1'' ThemeLight_LABEL_VERSION ThemeDark_LABEL_VERSION))"
proof -
  let ?msgs = "updateDetails english prerelease_example package_bar ''2.0.0-beta.1''"
  let ?first = "setLine 5 ?msgs (example_decoration, example_world)"
  have f: "flushed (fst ?first)" and d: "document (fst ?first) = 7"
    by (simp_all add: setLine_this example_decoration_fields)
  have l: "length [new_Message1 Icons_CHECKING] \<le> 2"
    by simp
  have before: "entry (manager_of (snd ?first) 7) 2 5 =
     Some (decoration 5 2
       (new_Message3 ''2.0.0-beta.1'' ThemeLight_LABEL_VERSION ThemeDark_LABEL_VERSION))"
    using setLine_entry [of 5 ?msgs example_decoration example_world 2 5]
    using updateDetails_first_three(4) [of english prerelease_example package_bar "''2.0.0-beta.1''"]
    by (simp add: example_decoration_fields updateDetails_first_three(3))
  from setLine_keeps_higher_slots [OF f l, of 5 "snd ?first"] before f
  show ?thesis
    by (simp add: d)
qed

text \<open>
  C7. After \<open>clearLine n\<close> no layer of the document's manager has an entry for line
  \<open>n\<close>, and every layer has for every other line the entry it had.
\<close>

theorem clearLine_removes_only_that_line:
  "entry (manager_of (snd (clearLine n (this, w))) (document this)) i k =
     (if k = n then None else entry (manager_of w (document this)) i k)"
  unfolding clearLine_world manager_of_update
  by (rule entry_delete)

theorem clearLine_removes_only_that_line_witness:
  "entry (manager_of checked_world 7) 0 3 \<noteq> None \<and>
   entry (manager_of (snd (clearLine 3 (example_decoration, checked_world))) 7) 0 3 = None \<and>
   entry (manager_of (snd (clearLine 3 (example_decoration, checked_world))) 7) 0 4 =
     Some (decoration 4 0 (new_Message1 Icons_CHECKING))"
  using clearLine_removes_only_that_line [of 3 example_decoration checked_world 0 3]
    clearLine_removes_only_that_line [of 3 example_decoration checked_world 0 4]
  by (simp add: example_decoration_fields checked_world_entry)

subsection \<open>setUpdateMessage\<close>

text \<open>
  \<open>setUpdateMessage\<close> touches the layers only in its last statement, after every
  \<^verbatim>\<open>await\<close>; the pair it is applied to is the state at that moment.

  C1, as claimed, fails: with no latest version \<open>setUpdateMessage\<close> returns at its first
  test and calls neither \<open>clearLine\<close> nor \<open>setLine\<close>. The checking icon that
  \<open>setCheckingMessage\<close> stored for line 5 is still in layer 0 afterwards, and the
  pending render paints it.
\<close>

theorem setUpdateMessage_counterexample_no_latest:
  "getVersionLatest package_unknown = None \<and>
   entry (manager_of (snd (setUpdateMessage english prerelease_example 5 package_unknown
       (setCheckingMessage 5 (example_decoration, example_world)))) 7) 0 5 \<noteq> None \<and>
   decorations (textEditors (window (snd (render_fire
       (setUpdateMessage english prerelease_example 5 package_unknown
          (setCheckingMessage 5 (example_decoration, example_world)))))) 0) 0 =
     [decoration 5 0 (new_Message1 Icons_CHECKING)]"
  by (simp add: setUpdateMessage_def package_unknown_def checking_state entry_def manager_of_def
      fromDocument_def array_get_def render_fire_def render_callback_def present_def
      setDecorations_def Object_values_def example_window_def)

text \<open>
  C1, amended. When \<open>getVersionLatest\<close> yields no value (or the empty string),
  \<open>setUpdateMessage\<close> returns the instance and the world as they were: every layer keeps
  the entries it had, and no render is scheduled.
\<close>

theorem setUpdateMessage_without_latest_returns:
  "\<not> truthy (getVersionLatest pkg) \<Longrightarrow> setUpdateMessage t pr ln pkg tw = tw"
  by (cases "getVersionLatest pkg") (simp_all add: setUpdateMessage_def)

theorem setUpdateMessage_without_latest_returns_witness:
  "\<not> truthy (getVersionLatest package_unknown) \<and>
   setUpdateMessage english prerelease_example 5 package_unknown
     (setCheckingMessage 5 (example_decoration, example_world)) =
   setCheckingMessage 5 (example_decoration, example_world)"
proof -
  have h: "\<not> truthy (getVersionLatest package_unknown)"
    by (simp add: package_unknown_def)
  from setUpdateMessage_without_latest_returns [OF h] h show ?thesis
    by simp
qed

text \<open>
  C3. With a latest version, no installed version and the declared version maxed,
  \<open>setUpdateMessage\<close> is \<open>setLine\<close> with two messages: layer 0 gets the pending icon,
  layer 1 the label \<^verbatim>\<open>Install pending\<close> (as \<open>t\<close> translates it), and no layer from
  index 2 on is written for the line.
\<close>

theorem setUpdateMessage_pending_only:
  "getVersionLatest pkg = Some v \<Longrightarrow> v \<noteq> [] \<Longrightarrow>
   \<not> truthy (getVersionInstalled pkg) \<Longrightarrow> isVersionMaxed pkg \<Longrightarrow>
     setUpdateMessage t pr ln pkg (this, w) =
       setLine ln
         [new_Message3 Icons_PENDING ThemeLight_ICON_AVAILABLE ThemeDark_ICON_AVAILABLE,
          new_Message1 (t ''Install pending'')] (this, w) \<and>
     entry (manager_of (snd (setUpdateMessage t pr ln pkg (this, w))) (document this)) 0 ln =
       Some (decoration ln 0
         (new_Message3 Icons_PENDING ThemeLight_ICON_AVAILABLE ThemeDark_ICON_AVAILABLE)) \<and>
     entry (manager_of (snd (setUpdateMessage t pr ln pkg (this, w))) (document this)) 1 ln =
       Some (decoration ln 1 (new_Message1 (t ''Install pending''))) \<and>
     shown (snd (setUpdateMessage t pr ln pkg (this, w))) (document this) 0 ln =
       Some Icons_PENDING \<and>
     shown (snd (setUpdateMessage t pr ln pkg (this, w))) (document this) 1 ln =
       Some (t ''Install pending'') \<and>
     (\<forall>i\<ge>2. entry (manager_of (snd (setUpdateMessage t pr ln pkg (this, w))) (document this)) i ln =
        (if flushed this then entry (manager_of w (document this)) i ln else None))"
  by (simp add: setUpdateMessage_branches setLine_entry shown_def contentText_decoration
      ThemeLight_ICON_AVAILABLE_def)

theorem setUpdateMessage_pending_only_witness:
  "getVersionLatest package_foo = Some ''1.0.0'' \<and>
   \<not> truthy (getVersionInstalled package_foo) \<and> isVersionMaxed package_foo \<and>
   shown (snd (setUpdateMessage english prerelease_example 5 package_foo
       (example_decoration, example_world))) 7 0 5 = Some Icons_PENDING \<and>
   shown (snd (setUpdateMessage english prerelease_example 5 package_foo
       (example_decoration, example_world))) 7 1 5 = Some ''Install pending'' \<and>
   entry (manager_of (snd (setUpdateMessage english prerelease_example 5 package_foo
       (example_decoration, example_world))) 7) 2 5 = None"
proof -
  have a: "getVersionLatest package_foo = Some ''1.0.0''" and b: "''1.0.0'' \<noteq> []"
    and c: "\<not> truthy (getVersionInstalled package_foo)" and d: "isVersionMaxed package_foo"
    by (simp_all add: package_foo_def)
  note T = setUpdateMessage_pending_only [OF a b c d, of english prerelease_example 5
      example_decoration example_world]
  from T [THEN conjunct2, THEN conjunct2, THEN conjunct2, THEN conjunct1]
    T [THEN conjunct2, THEN conjunct2, THEN conjunct2, THEN conjunct2, THEN conjunct1]
    T [THEN conjunct2, THEN conjunct2, THEN conjunct2, THEN conjunct2, THEN conjunct2,
       rule_format, of 2]
    a c d
  show ?thesis
    by (simp add: example_decoration_fields english_def)
qed

text \<open>
  C4. With a latest version and outside the pending-only case, \<open>setUpdateMessage\<close> is
  \<open>setLine\<close> with \<open>updateDetails\<close>, whose first three messages are the updatable icon,
  the label (\<^verbatim>\<open>Update available:\<close> with an installed version, \<^verbatim>\<open>Latest version:\<close>
  without) and the latest version; layers 0, 1 and 2 show them on the line.
\<close>

theorem setUpdateMessage_first_three:
  "getVersionLatest pkg = Some v \<Longrightarrow> v \<noteq> [] \<Longrightarrow>
   \<not> (\<not> truthy (getVersionInstalled pkg) \<and> isVersionMaxed pkg) \<Longrightarrow>
     setUpdateMessage t pr ln pkg (this, w) =
       setLine ln (updateDetails t pr pkg v) (this, w) \<and>
     take 3 (updateDetails t pr pkg v) =
       [new_Message3 Icons_UPDATABLE ThemeLight_ICON_UPDATABLE ThemeDark_ICON_UPDATABLE,
        new_Message3
          (if truthy (getVersionInstalled pkg)
           then t ''Update available:'' else t ''Latest version:'')
          ThemeLight_LABEL_UPDATABLE ThemeDark_LABEL_UPDATABLE,
        new_Message3 v ThemeLight_LABEL_VERSION ThemeDark_LABEL_VERSION] \<and>
     shown (snd (setUpdateMessage t pr ln pkg (this, w))) (document this) 0 ln =
       Some Icons_UPDATABLE \<and>
     shown (snd (setUpdateMessage t pr ln pkg (this, w))) (document this) 1 ln =
       Some (if truthy (getVersionInstalled pkg)
             then t ''Update available:'' else t ''Latest version:'') \<and>
     shown (snd (setUpdateMessage t pr ln pkg (this, w))) (document this) 2 ln = Some v"
proof -
  assume a: "getVersionLatest pkg = Some v" and b: "v \<noteq> []"
    and c: "\<not> (\<not> truthy (getVersionInstalled pkg) \<and> isVersionMaxed pkg)"
  have call: "setUpdateMessage t pr ln pkg (this, w) =
       setLine ln (updateDetails t pr pkg v) (this, w)"
    using c by (auto simp: setUpdateMessage_branches [OF a b])
  have three: "take 3 (updateDetails t pr pkg v) =
       [new_Message3 Icons_UPDATABLE ThemeLight_ICON_UPDATABLE ThemeDark_ICON_UPDATABLE,
        new_Message3
          (if truthy (getVersionInstalled pkg)
           then t ''Update available:'' else t ''Latest version:'')
          ThemeLight_LABEL_UPDATABLE ThemeDark_LABEL_UPDATABLE,
        new_Message3 v ThemeLight_LABEL_VERSION ThemeDark_LABEL_VERSION]"
    by (simp add: updateDetails_def Let_def)
  have len: "0 < length (updateDetails t pr pkg v)" "1 < length (updateDetails t pr pkg v)"
    "2 < length (updateDetails t pr pkg v)"
    using updateDetails_first_three(4) [of t pr pkg v] by auto
  have s0: "shown (snd (setLine ln (updateDetails t pr pkg v) (this, w))) (document this) 0 ln =
       Some Icons_UPDATABLE"
    by (simp add: setLine_shown [OF len(1)] updateDetails_first_three(1)
        ThemeLight_ICON_UPDATABLE_def contentText_decoration)
  have s1: "shown (snd (setLine ln (updateDetails t pr pkg v) (this, w))) (document this) 1 ln =
       Some (if truthy (getVersionInstalled pkg)
             then t ''Update available:'' else t ''Latest version:'')"
    unfolding setLine_shown [OF len(2)]
    using updateDetails_first_three(2) [of t pr pkg v]
    by (simp add: ThemeLight_LABEL_UPDATABLE_def contentText_decoration)
  have s2: "shown (snd (setLine ln (updateDetails t pr pkg v) (this, w))) (document this) 2 ln =
       Some v"
    by (simp add: setLine_shown [OF len(3)] updateDetails_first_three(3)
        ThemeLight_LABEL_VERSION_def contentText_decoration)
  show ?thesis
    unfolding call using three s0 s1 s2 by simp
qed

theorem setUpdateMessage_first_three_witness:
  "getVersionLatest package_bar = Some ''2.0.0-beta.1'' \<and>
   \<not> (\<not> truthy (getVersionInstalled package_bar) \<and> isVersionMaxed package_bar) \<and>
   shown (snd (setUpdateMessage english prerelease_example 5 package_bar
       (example_decoration, example_world))) 7 0 5 = Some Icons_UPDATABLE \<and>
   shown (snd (setUpdateMessage english prerelease_example 5 package_bar
       (example_decoration, example_world))) 7 1 5 = Some ''Update available:'' \<and>
   shown (snd (setUpdateMessage english prerelease_example 5 package_bar
       (example_decoration, example_world))) 7 2 5 = Some ''2.0.0-beta.1''"
proof -
  have a: "getVersionLatest package_bar = Some ''2.0.0-beta.1''" and b: "''2.0.0-beta.1'' \<noteq> []"
    and c: "\<not> (\<not> truthy (getVersionInstalled package_bar) \<and> isVersionMaxed package_bar)"
    and i: "truthy (getVersionInstalled package_bar)"
    by (simp_all add: package_bar_def)
  note T = setUpdateMessage_first_three [OF a b c, of english prerelease_example 5
      example_decoration example_world]
  from T [THEN conjunct2, THEN conjunct2] a c i
  show ?thesis
    by (simp add: example_decoration_fields english_def)
qed

text \<open>
  C2, as claimed, fails: the tag of a pre-release is written with angle brackets, as the
  comment on \<^verbatim>\<open>LABEL_PRERELEASE\<close> in the theme table has it, so the qualifiers are not
  the three strings of the claim.
\<close>

theorem setUpdateMessage_counterexample_prerelease_tag:
  "getVersionLatest package_baz = Some ''2.0.0-beta.1'' \<and>
   \<not> truthy (getVersionInstalled package_baz) \<and> \<not> isVersionMaxed package_baz \<and>
   isVersionMajorUpdate package_baz \<and> prerelease_example ''2.0.0-beta.1'' \<noteq> None \<and>
   map message (drop 3 (updateDetails english prerelease_example package_baz ''2.0.0-beta.1''))
     \<noteq> [''(install pending)'', ''(attention: major update!)'', ''(pre-release)''] \<and>
   setUpdateMessage english prerelease_example 5 package_baz (example_decoration, example_world) =
     setLine 5 (updateDetails english prerelease_example package_baz ''2.0.0-beta.1'')
       (example_decoration, example_world)"
  by (simp add: package_baz_def prerelease_example_def updateDetails_def english_def
      new_Message3_def setUpdateMessage_def)

text \<open>
  C2, amended. With a latest version that is a major update and a pre-release, no
  installed version and the declared version not maxed, the messages after the version
  are exactly three, in this order: \<^verbatim>\<open>(install pending)\<close>,
  \<^verbatim>\<open>(attention: major update!)\<close> and \<^verbatim>\<open><pre-release>\<close>, each label as \<open>t\<close>
  translates it; layers 3, 4 and 5 show them on the line.
\<close>

theorem setUpdateMessage_qualifiers_pending_major_prerelease:
  "getVersionLatest pkg = Some v \<Longrightarrow> v \<noteq> [] \<Longrightarrow>
   \<not> truthy (getVersionInstalled pkg) \<Longrightarrow> \<not> isVersionMaxed pkg \<Longrightarrow>
   isVersionMajorUpdate pkg \<Longrightarrow> pr v \<noteq> None \<Longrightarrow>
     setUpdateMessage t pr ln pkg (this, w) =
       setLine ln (updateDetails t pr pkg v) (this, w) \<and>
     map message (drop 3 (updateDetails t pr pkg v)) =
       [''('' @ t ''install pending'' @ '')'',
        ''('' @ t ''attention: major update!'' @ '')'',
        ''<'' @ t ''pre-release'' @ ''>''] \<and>
     map message (drop 3 (updateDetails english pr pkg v)) =
       [''(install pending)'', ''(attention: major update!)'', ''<pre-release>''] \<and>
     shown (snd (setUpdateMessage t pr ln pkg (this, w))) (document this) 3 ln =
       Some (''('' @ t ''install pending'' @ '')'') \<and>
     shown (snd (setUpdateMessage t pr ln pkg (this, w))) (document this) 4 ln =
       Some (''('' @ t ''attention: major update!'' @ '')'') \<and>
     shown (snd (setUpdateMessage t pr ln pkg (this, w))) (document this) 5 ln =
       Some (''<'' @ t ''pre-release'' @ ''>'')"
proof -
  assume a: "getVersionLatest pkg = Some v" and b: "v \<noteq> []"
    and c: "\<not> truthy (getVersionInstalled pkg)" and d: "\<not> isVersionMaxed pkg"
    and e: "isVersionMajorUpdate pkg" and f: "pr v \<noteq> None"
  have call: "setUpdateMessage t pr ln pkg (this, w) =
       setLine ln (updateDetails t pr pkg v) (this, w)"
    using c d by (simp add: setUpdateMessage_branches [OF a b])
  have list: "\<And>t. updateDetails t pr pkg v =
       [new_Message3 Icons_UPDATABLE ThemeLight_ICON_UPDATABLE ThemeDark_ICON_UPDATABLE,
        new_Message3 (t ''Latest version:'') ThemeLight_LABEL_UPDATABLE ThemeDark_LABEL_UPDATABLE,
        new_Message3 v ThemeLight_LABEL_VERSION ThemeDark_LABEL_VERSION,
        new_Message3 (''('' @ t ''install pending'' @ '')'')
          ThemeLight_LABEL_PENDING ThemeDark_LABEL_PENDING,
        new_Message3 (''('' @ t ''attention: major update!'' @ '')'')
          ThemeLight_LABEL_MAJOR ThemeDark_LABEL_MAJOR,
        new_Message3 (''<'' @ t ''pre-release'' @ ''>'')
          ThemeLight_LABEL_PRERELEASE ThemeDark_LABEL_PRERELEASE]"
    using c e f by (simp add: updateDetails_def Let_def)
  have texts: "map message (drop 3 (updateDetails t pr pkg v)) =
       [''('' @ t ''install pending'' @ '')'',
        ''('' @ t ''attention: major update!'' @ '')'',
        ''<'' @ t ''pre-release'' @ ''>'']"
    by (simp add: list new_Message3_def)
  have en: "map message (drop 3 (updateDetails english pr pkg v)) =
       [''(install pending)'', ''(attention: major update!)'', ''<pre-release>'']"
    by (simp add: list new_Message3_def english_def)
  have len: "3 < length (updateDetails t pr pkg v)" "4 < length (updateDetails t pr pkg v)"
    "5 < length (updateDetails t pr pkg v)"
    by (simp_all add: list)
  have n3: "updateDetails t pr pkg v ! 3 = new_Message3 (''('' @ t ''install pending'' @ '')'')
          ThemeLight_LABEL_PENDING ThemeDark_LABEL_PENDING"
    and n4: "updateDetails t pr pkg v ! 4 = new_Message3 (''('' @ t ''attention: major update!'' @ '')'')
          ThemeLight_LABEL_MAJOR ThemeDark_LABEL_MAJOR"
    and n5: "updateDetails t pr pkg v ! 5 = new_Message3 (''<'' @ t ''pre-release'' @ ''>'')
          ThemeLight_LABEL_PRERELEASE ThemeDark_LABEL_PRERELEASE"
    by (simp_all add: list)
  have s3: "shown (snd (setLine ln (updateDetails t pr pkg v) (this, w))) (document this) 3 ln =
       Some (''('' @ t ''install pending'' @ '')'')"
    unfolding setLine_shown [OF len(1)] n3
    by (simp add: ThemeLight_LABEL_PENDING_def contentText_decoration)
  have s4: "shown (snd (setLine ln (updateDetails t pr pkg v) (this, w))) (document this) 4 ln =
       Some (''('' @ t ''attention: major update!'' @ '')'')"
    unfolding setLine_shown [OF len(2)] n4
    by (simp add: ThemeLight_LABEL_MAJOR_def contentText_decoration)
  have s5: "shown (snd (setLine ln (updateDetails t pr pkg v) (this, w))) (document this) 5 ln =
       Some (''<'' @ t ''pre-release'' @ ''>'')"
    unfolding setLine_shown [OF len(3)] n5
    by (simp add: ThemeLight_LABEL_PRERELEASE_def contentText_decoration)
  show ?thesis
    unfolding call using texts en s3 s4 s5 by simp
qed

theorem setUpdateMessage_qualifiers_pending_major_prerelease_witness:
  "getVersionLatest package_baz = Some ''2.0.0-beta.1'' \<and>
   \<not> truthy (getVersionInstalled package_baz) \<and> \<not> isVersionMaxed package_baz \<and>
   isVersionMajorUpdate package_baz \<and> prerelease_example ''2.0.0-beta.1'' \<noteq> None \<and>
   map message (drop 3 (updateDetails english prerelease_example package_baz ''2.0.0-beta.1'')) =
     [''(install pending)'', ''(attention: major update!)'', ''<pre-release>''] \<and>
   shown (snd (setUpdateMessage english prerelease_example 5 package_baz
       (example_decoration, example_world))) 7 5 5 = Some ''<pre-release>''"
proof -
  have a: "getVersionLatest package_baz = Some ''2.0.0-beta.1''" and b: "''2.0.0-beta.1'' \<noteq> []"
    and c: "\<not> truthy (getVersionInstalled package_baz)" and d: "\<not> isVersionMaxed package_baz"
    and e: "isVersionMajorUpdate package_baz" and f: "prerelease_example ''2.0.0-beta.1'' \<noteq> None"
    by (simp_all add: package_baz_def prerelease_example_def)
  note T = setUpdateMessage_qualifiers_pending_major_prerelease
      [where pr = prerelease_example and t = english and ln = 5 and this = example_decoration
         and w = example_world, OF a b c d e f]
  from T [THEN conjunct2, THEN conjunct2, THEN conjunct1]
    T [THEN conjunct2, THEN conjunct2, THEN conjunct2, THEN conjunct2, THEN conjunct2]
    a c d e f
  show ?thesis
    by (simp add: example_decoration_fields english_def)
qed

end
